theory Spec2Isabelle
  imports Main "HOL-Library.Multiset"
begin

section \<open>The quiz engine of scripts/quizEngine.js\<close>

text \<open>
  The class \<open>QuizEngine\<close> keeps an array of vocabulary objects and a reference
  \<open>currentWord\<close> to one of them; \<open>submitAnswer\<close> writes the \<open>mastered\<close> flag
  through that reference. Objects are therefore kept in an explicit store, and the
  array holds references into it. An engine method takes the engine (with the store)
  and returns the updated one; a \<open>throw\<close> is the left summand of a sum.
\<close>

subsection \<open>Data\<close>

record item =
  french :: string
  english :: string
  mastered :: bool

type_synonym ref = nat
type_synonym store = "ref \<Rightarrow> item"

text \<open>An element of the array handed to \<open>initialize\<close>: \<open>mastered\<close> may be absent.\<close>

record raw_item =
  raw_french :: string
  raw_english :: string
  raw_mastered :: "bool option"

datatype vocab_arg = NotAnArray | ArrayOf "raw_item list"

text \<open>
  The counters of \<open>this.stats\<close> are JavaScript numbers. They are modelled as integers,
  which is what the engine itself stores in them; a stats object in which a counter is
  missing, or is \<open>NaN\<close> or a fraction, is not represented, so a statement about a
  counter is a statement about an integer-valued one.
\<close>

record sessionStats =
  totalWords :: int
  masteredWords :: int
  currentStreak :: int
  totalAnswered :: int
  correctAnswers :: int

record engine =
  heap :: store
  fresh :: ref
  vocabulary :: "ref list"
  currentWord :: "ref option"
  currentOptions :: "string list"
  correctAnswer :: string
  answeredWords :: "string list"
  stats :: sessionStats

datatype error = InvalidVocabularyData | NoCurrentWordSelected

record question =
  q_french :: string
  q_options :: "string list"
  q_correctAnswer :: string

record answerResult =
  r_isCorrect :: bool
  r_correctAnswer :: string
  r_selectedAnswer :: string
  r_feedback :: string
  r_stats :: sessionStats
  r_wordMastered :: bool

record progress =
  masteredCount :: int
  totalCount :: int
  percentage :: int
  p_currentStreak :: int
  accuracy :: int

text \<open>
  The object passed to \<open>importState\<close> and returned by \<open>exportState\<close>. A field that
  is missing (or \<open>null\<close>) is \<open>None\<close>; an array or an object is always truthy in
  JavaScript, also when it is empty. The array holds references to the item objects.
\<close>

record quizState =
  s_vocabulary :: "ref list option"
  s_stats :: "sessionStats option"
  s_answeredWords :: "string list option"
  s_timestamp :: "string option"

subsection \<open>Construction and statistics\<close>

text \<open>\<open>new QuizEngine()\<close>, in a store \<open>h\<close> whose references below \<open>n\<close> are in use.\<close>

definition QuizEngine :: "store \<Rightarrow> ref \<Rightarrow> engine" where
  "QuizEngine h n =
     \<lparr>heap = h, fresh = n, vocabulary = [], currentWord = None, currentOptions = [],
      correctAnswer = [], answeredWords = [],
      stats = \<lparr>totalWords = 0, masteredWords = 0, currentStreak = 0,
               totalAnswered = 0, correctAnswers = 0\<rparr>\<rparr>"

text \<open>\<open>this.vocabulary.filter(word => word.mastered).length\<close>\<close>

definition masteredLength :: "engine \<Rightarrow> int" where
  "masteredLength st = int (length (filter (\<lambda>a. mastered (heap st a)) (vocabulary st)))"

definition updateStats :: "engine \<Rightarrow> engine" where
  "updateStats st = st\<lparr>stats := (stats st)\<lparr>masteredWords := masteredLength st\<rparr>\<rparr>"

subsection \<open>initialize\<close>

text \<open>
  \<open>vocabulary.map(item => ({...item, mastered: item.mastered || false}))\<close> makes one
  new object per element, in order.
\<close>

definition copy_item :: "raw_item \<Rightarrow> item" where
  "copy_item r =
     \<lparr>french = raw_french r, english = raw_english r,
      mastered = (case raw_mastered r of None \<Rightarrow> False | Some b \<Rightarrow> b)\<rparr>"

primrec alloc :: "raw_item list \<Rightarrow> ref \<Rightarrow> store \<Rightarrow> store" where
  "alloc [] n h = h"
| "alloc (r # rs) n h = alloc rs (Suc n) (h(n := copy_item r))"

definition initialize :: "engine \<Rightarrow> vocab_arg \<Rightarrow> error + engine" where
  "initialize st v =
     (case v of
        NotAnArray \<Rightarrow> Inl InvalidVocabularyData
      | ArrayOf rs \<Rightarrow>
          if length rs = 0 then Inl InvalidVocabularyData
          else
            let st1 = st\<lparr>heap := alloc rs (fresh st) (heap st),
                         vocabulary := [fresh st ..< fresh st + length rs],
                         fresh := fresh st + length rs\<rparr>;
                st2 = st1\<lparr>stats := (stats st1)\<lparr>totalWords := int (length (vocabulary st1))\<rparr>\<rparr>;
                st3 = st2\<lparr>stats := (stats st2)\<lparr>masteredWords := masteredLength st2\<rparr>\<rparr>
            in Inr (updateStats st3))"

subsection \<open>Shuffling and the options of a question\<close>

text \<open>
  \<open>Math.random\<close> is a stream \<open>rnd\<close> of naturals, \<open>rnd 0\<close> the next draw;
  \<open>Math.floor(Math.random() * n)\<close> is \<open>rnd 0 mod n\<close>, which takes every value
  below \<open>n\<close> as the draw varies, and the rest of the computation goes on with the
  stream \<open>\<lambda>k. rnd (Suc k)\<close>. The loop of \<open>shuffleArray\<close> runs \<open>i\<close> from
  \<open>length - 1\<close> down to \<open>1\<close>.
\<close>

fun shuffle_loop :: "(nat \<Rightarrow> nat) \<Rightarrow> nat \<Rightarrow> 'a list \<Rightarrow> 'a list" where
  "shuffle_loop rnd 0 xs = xs"
| "shuffle_loop rnd (Suc i) xs =
     (let j = rnd 0 mod (Suc i + 1)
      in shuffle_loop (\<lambda>k. rnd (Suc k)) i (xs[Suc i := xs ! j, j := xs ! Suc i]))"

definition shuffleArray :: "(nat \<Rightarrow> nat) \<Rightarrow> 'a list \<Rightarrow> 'a list" where
  "shuffleArray rnd xs = shuffle_loop rnd (length xs - 1) xs"

text \<open>The English translations of the items that do not translate like \<open>w\<close>.\<close>

definition otherAnswers :: "engine \<Rightarrow> ref \<Rightarrow> string list" where
  "otherAnswers st w =
     map english
       (filter (\<lambda>it. english it \<noteq> english (heap st w)) (map (heap st) (vocabulary st)))"

definition generateOptions :: "engine \<Rightarrow> (nat \<Rightarrow> nat) \<Rightarrow> ref \<Rightarrow> string list" where
  "generateOptions st rnd w =
     (let options = [english (heap st w)];
          shuffledOthers = shuffleArray rnd (otherAnswers st w);
          incorrectOptions = take 3 shuffledOthers;
          allOptions = options @ incorrectOptions
      in shuffleArray (\<lambda>k. rnd (k + (length (otherAnswers st w) - 1))) allOptions)"

subsection \<open>getNextWord and submitAnswer\<close>

definition getNextWord :: "engine \<Rightarrow> (nat \<Rightarrow> nat) \<Rightarrow> question option \<times> engine" where
  "getNextWord st rnd =
     (let availableWords = filter (\<lambda>a. \<not> mastered (heap st a)) (vocabulary st)
      in if length availableWords = 0 then (None, st)
         else
           let randomIndex = rnd 0 mod length availableWords;
               w = availableWords ! randomIndex;
               opts = generateOptions st (\<lambda>k. rnd (Suc k)) w;
               st' = st\<lparr>currentWord := Some w, currentOptions := opts,
                         correctAnswer := english (heap st w)\<rparr>
           in (Some \<lparr>q_french = french (heap st w), q_options = opts,
                      q_correctAnswer = english (heap st w)\<rparr>, st'))"

text \<open>
  \<open>x++\<close> on a counter adds 1 in double precision. Every integer from \<open>-2^53\<close> to
  \<open>2^53\<close> is a double, so the sum is exact below \<open>2^53\<close>. From there on the doubles
  are even, \<open>x + 1\<close> lies half way between two of them (or nearer to \<open>x\<close>), and
  rounding to even gives the multiple of 4: \<open>2^53 + 1\<close> is \<open>2^53\<close> again.
\<close>

definition js_inc :: "int \<Rightarrow> int" where
  "js_inc x =
     (if - (2 ^ 53) \<le> x \<and> x < 2 ^ 53 then x + 1
      else if x mod 4 = 0 then x else x + 2)"

text \<open>\<open>Set.prototype.add\<close> on a set kept in insertion order.\<close>

definition set_add :: "string \<Rightarrow> string list \<Rightarrow> string list" where
  "set_add x xs = (if x \<in> set xs then xs else xs @ [x])"

definition feedback_of :: "bool \<Rightarrow> string \<Rightarrow> string" where
  "feedback_of ok ans =
     (if ok then ''Correct!''
      else ''Incorrect. The correct answer is '' @ [CHR 0x22] @ ans @ [CHR 0x22] @ ''.'')"

definition submitAnswer :: "engine \<Rightarrow> string \<Rightarrow> error + (answerResult \<times> engine)" where
  "submitAnswer st selectedAnswer =
     (case currentWord st of
        None \<Rightarrow> Inl NoCurrentWordSelected
      | Some w \<Rightarrow>
          let isCorrect = (selectedAnswer = correctAnswer st);
              st1 = st\<lparr>stats := (stats st)\<lparr>totalAnswered := js_inc (totalAnswered (stats st))\<rparr>\<rparr>;
              st2 =
                (if isCorrect then
                   st1\<lparr>heap := (heap st1)(w := (heap st1 w)\<lparr>mastered := True\<rparr>),
                       stats := (stats st1)
                         \<lparr>masteredWords := js_inc (masteredWords (stats st1)),
                          currentStreak := js_inc (currentStreak (stats st1)),
                          correctAnswers := js_inc (correctAnswers (stats st1))\<rparr>,
                       answeredWords := set_add (french (heap st1 w)) (answeredWords st1)\<rparr>
                 else st1\<lparr>stats := (stats st1)\<lparr>currentStreak := 0\<rparr>\<rparr>);
              st3 = updateStats st2
          in Inr (\<lparr>r_isCorrect = isCorrect, r_correctAnswer = correctAnswer st3,
                    r_selectedAnswer = selectedAnswer,
                    r_feedback = feedback_of isCorrect (correctAnswer st3),
                    r_stats = stats st3, r_wordMastered = isCorrect\<rparr>, st3))"

subsection \<open>Queries\<close>

definition isComplete :: "engine \<Rightarrow> bool" where
  "isComplete st = (masteredWords (stats st) = totalWords (stats st))"

text \<open>
  \<open>getProgress\<close> rounds two quotients computed in double-precision floating point,
  \<open>Math.round((a / b) * 100)\<close>. That arithmetic is not modelled: it is the
  parameter \<open>pct\<close>.
\<close>

definition getProgress :: "(int \<Rightarrow> int \<Rightarrow> int) \<Rightarrow> engine \<Rightarrow> progress" where
  "getProgress pct st =
     (let percentage =
            (if totalWords (stats st) > 0
             then pct (masteredWords (stats st)) (totalWords (stats st)) else 0)
      in \<lparr>masteredCount = masteredWords (stats st),
          totalCount = totalWords (stats st),
          percentage = percentage,
          p_currentStreak = currentStreak (stats st),
          accuracy =
            (if totalAnswered (stats st) > 0
             then pct (correctAnswers (stats st)) (totalAnswered (stats st)) else 0)\<rparr>)"

definition getVocabulary :: "engine \<Rightarrow> ref list" where
  "getVocabulary st = vocabulary st"

subsection \<open>resetProgress, markWordAsMastered, exportState, importState\<close>

definition resetProgress :: "engine \<Rightarrow> engine" where
  "resetProgress st =
     (let st1 = st\<lparr>heap := fold (\<lambda>a h. h(a := (h a)\<lparr>mastered := False\<rparr>)) (vocabulary st) (heap st)\<rparr>;
          st2 = st1\<lparr>stats := (stats st1)\<lparr>masteredWords := 0, currentStreak := 0,
                                         totalAnswered := 0, correctAnswers := 0\<rparr>,
                    answeredWords := []\<rparr>
      in updateStats st2)"

definition getWordByFrench :: "engine \<Rightarrow> string \<Rightarrow> ref option" where
  "getWordByFrench st f = find (\<lambda>a. french (heap st a) = f) (vocabulary st)"

definition markWordAsMastered :: "engine \<Rightarrow> string \<Rightarrow> bool \<times> engine" where
  "markWordAsMastered st f =
     (case getWordByFrench st f of
        None \<Rightarrow> (False, st)
      | Some w \<Rightarrow>
          if \<not> mastered (heap st w)
          then (True, updateStats (st\<lparr>heap := (heap st)(w := (heap st w)\<lparr>mastered := True\<rparr>)\<rparr>))
          else (False, st))"

definition exportState :: "engine \<Rightarrow> string \<Rightarrow> quizState" where
  "exportState st now =
     \<lparr>s_vocabulary = Some (getVocabulary st), s_stats = Some (stats st),
      s_answeredWords = Some (answeredWords st), s_timestamp = Some now\<rparr>"

definition importState :: "engine \<Rightarrow> quizState \<Rightarrow> engine" where
  "importState st state =
     (let st1 = (case s_vocabulary state of None \<Rightarrow> st | Some v \<Rightarrow> st\<lparr>vocabulary := v\<rparr>);
          st2 = (case s_stats state of None \<Rightarrow> st1 | Some s \<Rightarrow> st1\<lparr>stats := s\<rparr>);
          st3 = (case s_answeredWords state of
                   None \<Rightarrow> st2
                 | Some ws \<Rightarrow> st2\<lparr>answeredWords := fold set_add ws []\<rparr>)
      in updateStats st3)"

subsection \<open>Sequences of calls\<close>

text \<open>
  A caller drives the engine by a sequence of calls. A call that throws leaves the
  engine as it was: \<open>initialize\<close> and \<open>submitAnswer\<close> throw before they write.
\<close>

datatype call =
    Initialize vocab_arg
  | GetNextWord "nat \<Rightarrow> nat"
  | SubmitAnswer string
  | ResetProgress
  | MarkWordAsMastered string
  | ImportState quizState

fun step :: "engine \<Rightarrow> call \<Rightarrow> engine" where
  "step st (Initialize v) = (case initialize st v of Inl e \<Rightarrow> st | Inr st' \<Rightarrow> st')"
| "step st (GetNextWord rnd) = snd (getNextWord st rnd)"
| "step st (SubmitAnswer a) = (case submitAnswer st a of Inl e \<Rightarrow> st | Inr p \<Rightarrow> snd p)"
| "step st ResetProgress = resetProgress st"
| "step st (MarkWordAsMastered f) = snd (markWordAsMastered st f)"
| "step st (ImportState state) = importState st state"

primrec run :: "engine \<Rightarrow> call list \<Rightarrow> engine" where
  "run st [] = st"
| "run st (c # cs) = run (step st c) cs"

text \<open>The engine before the first call and after each call, in order.\<close>

primrec trace :: "engine \<Rightarrow> call list \<Rightarrow> engine list" where
  "trace st [] = [st]"
| "trace st (c # cs) = st # trace (step st c) cs"

fun answering :: "call \<Rightarrow> bool" where
  "answering (GetNextWord rnd) = True"
| "answering (SubmitAnswer a) = True"
| "answering c = False"

subsection \<open>Concrete sessions\<close>

definition empty_store :: store where
  "empty_store a = \<lparr>french = [], english = [], mastered = False\<rparr>"

definition rnd_zero :: "nat \<Rightarrow> nat" where
  "rnd_zero k = 0"

definition raw :: "string \<Rightarrow> string \<Rightarrow> raw_item" where
  "raw f e = \<lparr>raw_french = f, raw_english = e, raw_mastered = None\<rparr>"

text \<open>The sample list of the README.\<close>

definition demo_vocab :: "raw_item list" where
  "demo_vocab =
     [raw ''chat'' ''cat'', raw ''chien'' ''dog'', raw ''maison'' ''house'',
      raw ''voiture'' ''car'']"

definition demo_session :: engine where
  "demo_session = projr (initialize (QuizEngine empty_store 0) (ArrayOf demo_vocab))"

definition demo_asked :: engine where
  "demo_asked = snd (getNextWord demo_session rnd_zero)"

definition demo_answered :: engine where
  "demo_answered = snd (projr (submitAnswer demo_asked ''cat''))"

text \<open>A list in which three French words share one English translation.\<close>

definition dup_vocab :: "raw_item list" where
  "dup_vocab =
     [raw ''chat'' ''cat'', raw ''voiture'' ''car'', raw ''auto'' ''car'',
      raw ''bagnole'' ''car'', raw ''chien'' ''dog'', raw ''maison'' ''house'']"

definition dup_session :: engine where
  "dup_session = projr (initialize (QuizEngine empty_store 0) (ArrayOf dup_vocab))"

text \<open>A list of two words.\<close>

definition two_vocab :: "raw_item list" where
  "two_vocab = [raw ''chat'' ''cat'', raw ''chien'' ''dog'']"

definition two_session :: engine where
  "two_session = projr (initialize (QuizEngine empty_store 0) (ArrayOf two_vocab))"

text \<open>Both words of the two-word list are asked and answered correctly.\<close>

definition two_calls :: "call list" where
  "two_calls =
     [GetNextWord rnd_zero, SubmitAnswer ''cat'', GetNextWord rnd_zero, SubmitAnswer ''dog'']"

text \<open>A store whose object 0 is a word already mastered, as a caller may build it.\<close>

definition mastered_store :: store where
  "mastered_store = empty_store(0 := \<lparr>french = ''chat'', english = ''cat'', mastered = True\<rparr>)"

definition vocabulary_only :: quizState where
  "vocabulary_only =
     \<lparr>s_vocabulary = Some [0], s_stats = None, s_answeredWords = None, s_timestamp = None\<rparr>"

text \<open>A new engine in the store of the session that has answered one word.\<close>

definition demo_other :: engine where
  "demo_other = QuizEngine (heap demo_answered) (fresh demo_answered)"

section \<open>Properties\<close>

subsection \<open>The shuffle permutes\<close>

lemma mset_shuffle_loop: "i < length xs \<Longrightarrow> mset (shuffle_loop rnd i xs) = mset xs"
proof (induction i arbitrary: rnd xs)
  case 0
  then show ?case by simp
next
  case (Suc i)
  let ?j = "rnd 0 mod (Suc i + 1)"
  have "?j < Suc i + 1" by (rule mod_less_divisor) simp
  then have j: "?j < length xs" using Suc.prems by linarith
  have "mset (xs[Suc i := xs ! ?j, ?j := xs ! Suc i]) = mset xs"
    using Suc.prems j by (simp add: mset_swap)
  moreover have "i < length (xs[Suc i := xs ! ?j, ?j := xs ! Suc i])" using Suc.prems by simp
  ultimately show ?case using Suc.IH by (simp add: Let_def)
qed

lemma mset_shuffleArray: "mset (shuffleArray rnd xs) = mset xs"
  by (cases xs) (simp_all add: shuffleArray_def mset_shuffle_loop)

lemma length_shuffleArray: "length (shuffleArray rnd xs) = length xs"
  by (rule mset_eq_length[OF mset_shuffleArray])

lemma set_shuffleArray: "set (shuffleArray rnd xs) = set xs"
  by (rule mset_eq_setD[OF mset_shuffleArray])

lemma distinct_shuffleArray: "distinct (shuffleArray rnd xs) = distinct xs"
  by (rule mset_eq_imp_distinct_iff[OF mset_shuffleArray])

lemma count_list_shuffleArray: "count_list (shuffleArray rnd xs) x = count_list xs x"
proof -
  have "count (mset (shuffleArray rnd xs)) x = count (mset xs) x"
    by (simp only: mset_shuffleArray)
  then show ?thesis by (simp only: count_mset)
qed

subsection \<open>importState\<close>

text \<open>
  Claim C4. Whatever object is passed to \<open>importState\<close>, the counter
  \<open>masteredWords\<close> of the session afterwards is the number of items of the session's
  vocabulary whose \<open>mastered\<close> flag is set; the \<open>masteredWords\<close> of the imported
  stats plays no part.
\<close>

theorem importState_rederives_masteredWords:
  "masteredWords (stats (importState st state)) =
     int (length (filter (\<lambda>a. mastered (heap (importState st state) a))
                    (vocabulary (importState st state))))"
  by (simp add: importState_def updateStats_def masteredLength_def Let_def split: option.splits)

subsection \<open>The concrete sessions\<close>

lemma demo_session_init:
  "initialize (QuizEngine empty_store 0) (ArrayOf demo_vocab) = Inr demo_session"
  by (simp add: demo_session_def initialize_def demo_vocab_def Let_def)

lemma dup_session_init:
  "initialize (QuizEngine empty_store 0) (ArrayOf dup_vocab) = Inr dup_session"
  by (simp add: dup_session_def initialize_def dup_vocab_def Let_def)

lemma two_session_init:
  "initialize (QuizEngine empty_store 0) (ArrayOf two_vocab) = Inr two_session"
  by (simp add: two_session_def initialize_def two_vocab_def Let_def)

lemma demo_question:
  "fst (getNextWord demo_session rnd_zero) =
     Some \<lparr>q_french = ''chat'', q_options = [''house'', ''car'', ''dog'', ''cat''],
           q_correctAnswer = ''cat''\<rparr>"
  by code_simp

lemma demo_english:
  "map (\<lambda>a. english (heap demo_session a)) (vocabulary demo_session) =
     [''cat'', ''dog'', ''house'', ''car'']"
  by code_simp

subsection \<open>Questions and their options\<close>

lemma generateOptions_alt:
  "generateOptions st rnd w =
     shuffleArray (\<lambda>k. rnd (k + (length (otherAnswers st w) - 1)))
       (english (heap st w) # take 3 (shuffleArray rnd (otherAnswers st w)))"
  by (simp add: generateOptions_def Let_def)

lemma length_otherAnswers:
  "length (otherAnswers st w) =
     length (filter (\<lambda>a. english (heap st a) \<noteq> english (heap st w)) (vocabulary st))"
  by (simp add: otherAnswers_def filter_map comp_def)

lemma set_otherAnswers:
  "set (otherAnswers st w) = english ` heap st ` set (vocabulary st) - {english (heap st w)}"
  by (auto simp: otherAnswers_def)

lemma length_generateOptions:
  "length (generateOptions st rnd w) =
     1 + min 3 (length (filter (\<lambda>a. english (heap st a) \<noteq> english (heap st w)) (vocabulary st)))"
  by (simp add: generateOptions_alt length_shuffleArray length_otherAnswers min.commute)

lemma count_generateOptions:
  "count_list (generateOptions st rnd w) (english (heap st w)) = 1"
proof -
  have "english (heap st w) \<notin> set (take 3 (shuffleArray rnd (otherAnswers st w)))"
    using set_take_subset[of 3 "shuffleArray rnd (otherAnswers st w)"]
    by (auto simp: set_shuffleArray set_otherAnswers)
  then have "count_list (take 3 (shuffleArray rnd (otherAnswers st w))) (english (heap st w)) = 0"
    by (simp add: count_list_0_iff)
  then show ?thesis
    by (simp add: generateOptions_alt count_list_shuffleArray)
qed

lemma distinct_otherAnswers:
  "distinct (map (\<lambda>a. english (heap st a)) (vocabulary st)) \<Longrightarrow> distinct (otherAnswers st w)"
proof -
  assume d: "distinct (map (\<lambda>a. english (heap st a)) (vocabulary st))"
  have "otherAnswers st w =
      filter (\<lambda>e. e \<noteq> english (heap st w)) (map (\<lambda>a. english (heap st a)) (vocabulary st))"
    by (simp add: otherAnswers_def filter_map comp_def)
  then show ?thesis using d by (simp only: distinct_filter)
qed

lemma distinct_generateOptions:
  assumes "distinct (map (\<lambda>a. english (heap st a)) (vocabulary st))"
  shows "distinct (generateOptions st rnd w)"
proof -
  have d: "distinct (take 3 (shuffleArray rnd (otherAnswers st w)))"
    using distinct_otherAnswers[OF assms] by (simp add: distinct_shuffleArray)
  have "english (heap st w) \<notin> set (take 3 (shuffleArray rnd (otherAnswers st w)))"
    using set_take_subset[of 3 "shuffleArray rnd (otherAnswers st w)"]
    by (auto simp: set_shuffleArray set_otherAnswers)
  then show ?thesis using d by (simp add: generateOptions_alt distinct_shuffleArray)
qed

lemma set_generateOptions:
  "set (generateOptions st rnd w) \<subseteq>
     insert (english (heap st w)) (english ` heap st ` set (vocabulary st))"
  using set_take_subset[of 3 "shuffleArray rnd (otherAnswers st w)"]
  by (auto simp: generateOptions_alt set_shuffleArray set_otherAnswers)

lemma many_otherAnswers:
  assumes "4 \<le> card (english ` heap st ` set (vocabulary st))"
  shows "3 \<le> length (otherAnswers st w)"
proof -
  let ?S = "english ` heap st ` set (vocabulary st)"
  have "card ?S - 1 \<le> card (?S - {english (heap st w)})"
    by (simp add: card_Diff_singleton_if)
  then have "3 \<le> card (set (otherAnswers st w))"
    using assms by (simp add: set_otherAnswers)
  then show ?thesis using card_length[of "otherAnswers st w"] by linarith
qed

lemma getNextWord_Some:
  assumes "getNextWord st rnd = (Some q, st')"
  shows "\<exists>w. w \<in> set (vocabulary st) \<and> \<not> mastered (heap st w) \<and>
           q = \<lparr>q_french = french (heap st w),
                 q_options = generateOptions st (\<lambda>k. rnd (Suc k)) w,
                 q_correctAnswer = english (heap st w)\<rparr> \<and>
           st' = st\<lparr>currentWord := Some w,
                     currentOptions := generateOptions st (\<lambda>k. rnd (Suc k)) w,
                     correctAnswer := english (heap st w)\<rparr>"
proof -
  let ?av = "filter (\<lambda>a. \<not> mastered (heap st a)) (vocabulary st)"
  let ?w = "?av ! (rnd 0 mod length ?av)"
  from assms have ne: "?av \<noteq> []"
    by (auto simp: getNextWord_def Let_def split: if_splits)
  then have "rnd 0 mod length ?av < length ?av" by simp
  then have "?w \<in> set ?av" by (rule nth_mem)
  then have w: "?w \<in> set (vocabulary st)" "\<not> mastered (heap st ?w)" by auto
  from assms ne have
    "q = \<lparr>q_french = french (heap st ?w),
          q_options = generateOptions st (\<lambda>k. rnd (Suc k)) ?w,
          q_correctAnswer = english (heap st ?w)\<rparr>"
    "st' = st\<lparr>currentWord := Some ?w,
              currentOptions := generateOptions st (\<lambda>k. rnd (Suc k)) ?w,
              correctAnswer := english (heap st ?w)\<rparr>"
    by (auto simp: getNextWord_def Let_def split: if_splits)
  with w show ?thesis by blast
qed

lemma getNextWord_None:
  "(fst (getNextWord st rnd) = None) = (filter (\<lambda>a. \<not> mastered (heap st a)) (vocabulary st) = [])"
  by (simp add: getNextWord_def Let_def)

text \<open>
  Claim C1, as the code has it. When the vocabulary holds at least 4 different English
  values, every question that \<open>getNextWord\<close> returns has exactly 4 options, and
  exactly one of them is the correct answer. The 4 options are pairwise distinct when
  the English values of the items are pairwise distinct: the distractors are filtered
  against the correct answer only, never against each other.
\<close>

theorem getNextWord_four_options:
  assumes "4 \<le> card (english ` heap st ` set (vocabulary st))"
    and "getNextWord st rnd = (Some q, st')"
  shows "length (q_options q) = 4 \<and>
         count_list (q_options q) (q_correctAnswer q) = 1 \<and>
         (distinct (map (\<lambda>a. english (heap st a)) (vocabulary st)) \<longrightarrow> distinct (q_options q))"
proof -
  from getNextWord_Some[OF assms(2)] obtain w where
    q: "q = \<lparr>q_french = french (heap st w),
             q_options = generateOptions st (\<lambda>k. rnd (Suc k)) w,
             q_correctAnswer = english (heap st w)\<rparr>"
    by blast
  have "3 \<le> length (filter (\<lambda>a. english (heap st a) \<noteq> english (heap st w)) (vocabulary st))"
    using many_otherAnswers[OF assms(1), of w] by (simp only: length_otherAnswers)
  then have "length (q_options q) = 4"
    by (simp add: q length_generateOptions)
  moreover have "count_list (q_options q) (q_correctAnswer q) = 1"
    by (simp add: q count_generateOptions)
  moreover have "distinct (map (\<lambda>a. english (heap st a)) (vocabulary st)) \<longrightarrow> distinct (q_options q)"
    by (simp add: q distinct_generateOptions)
  ultimately show ?thesis by blast
qed

theorem getNextWord_four_options_witness:
  "4 \<le> card (english ` heap demo_session ` set (vocabulary demo_session)) \<and>
   distinct (map (\<lambda>a. english (heap demo_session a)) (vocabulary demo_session)) \<and>
   length (q_options (the (fst (getNextWord demo_session rnd_zero)))) = 4 \<and>
   count_list (q_options (the (fst (getNextWord demo_session rnd_zero))))
      (q_correctAnswer (the (fst (getNextWord demo_session rnd_zero)))) = 1 \<and>
   distinct (q_options (the (fst (getNextWord demo_session rnd_zero))))"
proof -
  have e: "english ` heap demo_session ` set (vocabulary demo_session) =
      set (map (\<lambda>a. english (heap demo_session a)) (vocabulary demo_session))"
    by auto
  have h1: "4 \<le> card (english ` heap demo_session ` set (vocabulary demo_session))"
    unfolding e demo_english by simp
  have h2: "getNextWord demo_session rnd_zero =
      (Some (the (fst (getNextWord demo_session rnd_zero))), snd (getNextWord demo_session rnd_zero))"
    by (simp add: demo_question prod_eq_iff)
  have h3: "distinct (map (\<lambda>a. english (heap demo_session a)) (vocabulary demo_session))"
    unfolding demo_english by simp
  from getNextWord_four_options[OF h1 h2] h1 h3 show ?thesis by blast
qed

text \<open>
  Claim C1 as stated fails: in the list below three words translate to \<open>car\<close>, there
  are 4 different English values, and the question for \<open>chat\<close> offers \<open>car\<close> twice.
\<close>

theorem repeated_option_counterexample:
  "initialize (QuizEngine empty_store 0) (ArrayOf dup_vocab) = Inr dup_session \<and>
   card (english ` heap dup_session ` set (vocabulary dup_session)) = 4 \<and>
   fst (getNextWord dup_session rnd_zero) =
     Some \<lparr>q_french = ''chat'', q_options = [''car'', ''car'', ''dog'', ''cat''],
           q_correctAnswer = ''cat''\<rparr> \<and>
   \<not> distinct (q_options (the (fst (getNextWord dup_session rnd_zero))))"
proof -
  have q: "fst (getNextWord dup_session rnd_zero) =
     Some \<lparr>q_french = ''chat'', q_options = [''car'', ''car'', ''dog'', ''cat''],
           q_correctAnswer = ''cat''\<rparr>"
    by code_simp
  have e: "english ` heap dup_session ` set (vocabulary dup_session) =
      set (map (\<lambda>a. english (heap dup_session a)) (vocabulary dup_session))"
    by auto
  have m: "map (\<lambda>a. english (heap dup_session a)) (vocabulary dup_session) =
      [''cat'', ''car'', ''car'', ''car'', ''dog'', ''house'']"
    by code_simp
  have c: "card (english ` heap dup_session ` set (vocabulary dup_session)) = 4"
    unfolding e m by simp
  show ?thesis using dup_session_init q c by simp
qed

text \<open>
  Claim C5, as the code has it. \<open>getNextWord\<close> has no failure for a small pool of
  distractors: whenever some item is not mastered it returns a question, and the
  question has one option for the correct answer and one for each of up to three items
  whose English value differs from it. With fewer than three such items the options
  are fewer than 4.
\<close>

theorem getNextWord_takes_up_to_three:
  assumes "\<exists>a\<in>set (vocabulary st). \<not> mastered (heap st a)"
  shows "\<exists>q st'. getNextWord st rnd = (Some q, st') \<and>
           length (q_options q) =
             1 + min 3 (length (filter (\<lambda>a. english (heap st a) \<noteq> q_correctAnswer q)
                                  (vocabulary st)))"
proof -
  from assms have "filter (\<lambda>a. \<not> mastered (heap st a)) (vocabulary st) \<noteq> []"
    by (simp add: filter_empty_conv)
  then have "fst (getNextWord st rnd) \<noteq> None"
    by (simp add: getNextWord_None)
  then obtain q where "fst (getNextWord st rnd) = Some q" by blast
  then have g: "getNextWord st rnd = (Some q, snd (getNextWord st rnd))"
    by (simp add: prod_eq_iff)
  from getNextWord_Some[OF g] obtain w where
    q: "q = \<lparr>q_french = french (heap st w),
             q_options = generateOptions st (\<lambda>k. rnd (Suc k)) w,
             q_correctAnswer = english (heap st w)\<rparr>"
    by blast
  have "length (q_options q) =
      1 + min 3 (length (filter (\<lambda>a. english (heap st a) \<noteq> q_correctAnswer q) (vocabulary st)))"
    by (simp add: q length_generateOptions)
  with g show ?thesis by blast
qed

theorem getNextWord_takes_up_to_three_witness:
  "(\<exists>a\<in>set (vocabulary two_session). \<not> mastered (heap two_session a)) \<and>
   (\<exists>q st'. getNextWord two_session rnd_zero = (Some q, st') \<and>
      length (q_options q) =
        1 + min 3 (length (filter (\<lambda>a. english (heap two_session a) \<noteq> q_correctAnswer q)
                             (vocabulary two_session))))"
proof -
  have v: "vocabulary two_session = [0, 1]" by code_simp
  have m: "\<not> mastered (heap two_session 0)" by code_simp
  have h: "\<exists>a\<in>set (vocabulary two_session). \<not> mastered (heap two_session a)"
    using v m by simp
  from getNextWord_takes_up_to_three[OF h] h show ?thesis by blast
qed

text \<open>
  Claim C5 as stated fails: on a list of two words one distractor exists, and
  \<open>getNextWord\<close> returns a question with two options.
\<close>

theorem short_options_counterexample:
  "initialize (QuizEngine empty_store 0) (ArrayOf two_vocab) = Inr two_session \<and>
   length (filter (\<lambda>a. english (heap two_session a) \<noteq> ''cat'') (vocabulary two_session)) = 1 \<and>
   fst (getNextWord two_session rnd_zero) =
     Some \<lparr>q_french = ''chat'', q_options = [''dog'', ''cat''], q_correctAnswer = ''cat''\<rparr> \<and>
   length (q_options (the (fst (getNextWord two_session rnd_zero)))) = 2"
proof -
  have q: "fst (getNextWord two_session rnd_zero) =
     Some \<lparr>q_french = ''chat'', q_options = [''dog'', ''cat''], q_correctAnswer = ''cat''\<rparr>"
    by code_simp
  have n: "length (filter (\<lambda>a. english (heap two_session a) \<noteq> ''cat'') (vocabulary two_session)) = 1"
    by code_simp
  show ?thesis using two_session_init q n by simp
qed

text \<open>
  Claim C3 against the code. The class has no \<open>toggleFlipMode\<close> and no
  \<open>getFlipMode\<close>, and the engine has no field for a direction: every question that
  \<open>getNextWord\<close> returns prompts with the French field of an item of the vocabulary,
  its correct answer is the English field of that item, and all its options are English
  fields.
\<close>

theorem getNextWord_prompts_french:
  assumes "getNextWord st rnd = (Some q, st')"
  shows "\<exists>w. w \<in> set (vocabulary st) \<and> q_french q = french (heap st w) \<and>
           q_correctAnswer q = english (heap st w) \<and>
           set (q_options q) \<subseteq> english ` heap st ` set (vocabulary st)"
proof -
  from getNextWord_Some[OF assms] obtain w where
    w: "w \<in> set (vocabulary st)" and
    q: "q = \<lparr>q_french = french (heap st w),
             q_options = generateOptions st (\<lambda>k. rnd (Suc k)) w,
             q_correctAnswer = english (heap st w)\<rparr>"
    by blast
  have "insert (english (heap st w)) (english ` heap st ` set (vocabulary st)) =
      english ` heap st ` set (vocabulary st)"
    using w by blast
  then have "set (q_options q) \<subseteq> english ` heap st ` set (vocabulary st)"
    using set_generateOptions[of st "\<lambda>k. rnd (Suc k)" w] by (simp add: q)
  with w q show ?thesis by auto
qed

theorem getNextWord_prompts_french_witness:
  "\<exists>w. w \<in> set (vocabulary demo_session) \<and>
      q_french (the (fst (getNextWord demo_session rnd_zero))) = french (heap demo_session w) \<and>
      q_correctAnswer (the (fst (getNextWord demo_session rnd_zero))) = english (heap demo_session w) \<and>
      set (q_options (the (fst (getNextWord demo_session rnd_zero))))
        \<subseteq> english ` heap demo_session ` set (vocabulary demo_session)"
proof -
  have h: "getNextWord demo_session rnd_zero =
      (Some (the (fst (getNextWord demo_session rnd_zero))), snd (getNextWord demo_session rnd_zero))"
    by (simp add: demo_question prod_eq_iff)
  from getNextWord_prompts_french[OF h] show ?thesis .
qed

subsection \<open>submitAnswer\<close>

lemma demo_asked_currentWord: "currentWord demo_asked = Some 0"
  by code_simp

lemma demo_submit: "\<not> isl (submitAnswer demo_asked ''cat'')"
  by (simp add: submitAnswer_def demo_asked_currentWord Let_def)

lemma demo_submit_eq:
  "submitAnswer demo_asked ''cat'' = Inr (fst (projr (submitAnswer demo_asked ''cat'')), demo_answered)"
  using demo_submit by (simp add: demo_answered_def)

lemma demo_run:
  "run (QuizEngine empty_store 0)
     [Initialize (ArrayOf demo_vocab), GetNextWord rnd_zero, SubmitAnswer ''cat''] = demo_answered"
proof -
  have "step demo_asked (SubmitAnswer ''cat'') = demo_answered"
    by (simp add: demo_answered_def sum.case_eq_if demo_submit)
  then show ?thesis
    by (simp add: demo_session_init demo_asked_def[symmetric])
qed

text \<open>
  Claim C2, as the code has it. \<open>submitAnswer\<close> throws exactly when no word has been
  selected (\<open>currentWord\<close> is \<open>null\<close>). It never clears the question: a
  \<open>submitAnswer\<close> that succeeds leaves \<open>currentWord\<close> and \<open>correctAnswer\<close> as
  they were. A second \<open>submitAnswer\<close> with no \<open>getNextWord\<close> in between then
  succeeds as well and is judged against the same question: its answer is correct
  exactly when it equals that \<open>correctAnswer\<close>, which the result reports, and a correct
  answer sets the \<open>mastered\<close> flag of that same word. It counts again:
  \<open>totalAnswered\<close> has been incremented twice, which for an integer between
  \<open>-2^53\<close> and \<open>2^53 - 2\<close> is a growth by two.
\<close>

theorem submitAnswer_keeps_currentWord:
  "(submitAnswer st a = Inl NoCurrentWordSelected \<longleftrightarrow> currentWord st = None) \<and>
   (submitAnswer st a = Inr (r, st') \<longrightarrow>
      currentWord st' = currentWord st \<and>
      correctAnswer st' = correctAnswer st \<and>
      (\<exists>r' st''. submitAnswer st' b = Inr (r', st'') \<and>
         r_isCorrect r' = (b = correctAnswer st) \<and>
         r_correctAnswer r' = correctAnswer st \<and>
         r_selectedAnswer r' = b \<and>
         currentWord st'' = currentWord st \<and>
         correctAnswer st'' = correctAnswer st \<and>
         (b = correctAnswer st \<longrightarrow> mastered (heap st'' (the (currentWord st)))) \<and>
         totalAnswered (stats st'') = js_inc (js_inc (totalAnswered (stats st))) \<and>
         (- (2 ^ 53) \<le> totalAnswered (stats st) \<and> totalAnswered (stats st) + 2 \<le> 2 ^ 53 \<longrightarrow>
            totalAnswered (stats st'') = totalAnswered (stats st) + 2)))"
proof -
  have inc: "- (2 ^ 53) \<le> x \<and> x + 2 \<le> 2 ^ 53 \<longrightarrow> js_inc (js_inc x) = x + 2" for x :: int
    by (simp add: js_inc_def)
  have e: "(submitAnswer st a = Inl NoCurrentWordSelected \<longleftrightarrow> currentWord st = None)"
    by (simp add: submitAnswer_def Let_def split: option.splits)
  have "submitAnswer st a = Inr (r, st') \<longrightarrow>
      currentWord st' = currentWord st \<and>
      correctAnswer st' = correctAnswer st \<and>
      (\<exists>r' st''. submitAnswer st' b = Inr (r', st'') \<and>
         r_isCorrect r' = (b = correctAnswer st) \<and>
         r_correctAnswer r' = correctAnswer st \<and>
         r_selectedAnswer r' = b \<and>
         currentWord st'' = currentWord st \<and>
         correctAnswer st'' = correctAnswer st \<and>
         (b = correctAnswer st \<longrightarrow> mastered (heap st'' (the (currentWord st)))) \<and>
         totalAnswered (stats st'') = js_inc (js_inc (totalAnswered (stats st))))"
    by (auto simp: submitAnswer_def updateStats_def Let_def split: option.splits)
  with e inc[of "totalAnswered (stats st)"] show ?thesis by metis
qed

theorem submitAnswer_keeps_currentWord_witness:
  "submitAnswer demo_asked ''cat'' = Inr (fst (projr (submitAnswer demo_asked ''cat'')), demo_answered) \<and>
   currentWord demo_answered = Some 0 \<and>
   correctAnswer demo_answered = ''cat'' \<and>
   (\<exists>r' st''. submitAnswer demo_answered ''cat'' = Inr (r', st'') \<and>
      r_isCorrect r' \<and> r_correctAnswer r' = ''cat'' \<and> r_selectedAnswer r' = ''cat'' \<and>
      currentWord st'' = Some 0 \<and> mastered (heap st'' 0) \<and>
      totalAnswered (stats demo_asked) = 0 \<and> totalAnswered (stats st'') = 2)"
proof -
  have c: "correctAnswer demo_asked = ''cat''" by code_simp
  have t: "totalAnswered (stats demo_asked) = 0" by code_simp
  note w = demo_asked_currentWord
  from submitAnswer_keeps_currentWord
    [of demo_asked "''cat''" "fst (projr (submitAnswer demo_asked ''cat''))" demo_answered "''cat''"]
    demo_submit_eq
  have k: "currentWord demo_answered = currentWord demo_asked \<and>
      correctAnswer demo_answered = correctAnswer demo_asked \<and>
      (\<exists>r' st''. submitAnswer demo_answered ''cat'' = Inr (r', st'') \<and>
         r_isCorrect r' = (''cat'' = correctAnswer demo_asked) \<and>
         r_correctAnswer r' = correctAnswer demo_asked \<and>
         r_selectedAnswer r' = ''cat'' \<and>
         currentWord st'' = currentWord demo_asked \<and>
         correctAnswer st'' = correctAnswer demo_asked \<and>
         (''cat'' = correctAnswer demo_asked \<longrightarrow> mastered (heap st'' (the (currentWord demo_asked)))) \<and>
         totalAnswered (stats st'') = js_inc (js_inc (totalAnswered (stats demo_asked))) \<and>
         (- (2 ^ 53) \<le> totalAnswered (stats demo_asked) \<and> totalAnswered (stats demo_asked) + 2 \<le> 2 ^ 53 \<longrightarrow>
            totalAnswered (stats st'') = totalAnswered (stats demo_asked) + 2))"
    by blast
  then have "currentWord demo_answered = Some 0 \<and>
      correctAnswer demo_answered = ''cat'' \<and>
      (\<exists>r' st''. submitAnswer demo_answered ''cat'' = Inr (r', st'') \<and>
         r_isCorrect r' \<and> r_correctAnswer r' = ''cat'' \<and> r_selectedAnswer r' = ''cat'' \<and>
         currentWord st'' = Some 0 \<and> mastered (heap st'' 0) \<and>
         totalAnswered (stats demo_asked) = 0 \<and> totalAnswered (stats st'') = 2)"
    unfolding c t w by (simp, blast)
  with demo_submit_eq show ?thesis by (rule conjI)
qed

text \<open>
  Claim C2 as stated fails: after \<open>chat\<close> was answered with \<open>cat\<close>, answering
  \<open>cat\<close> again is no error, and \<open>totalAnswered\<close>, \<open>correctAnswers\<close> and
  \<open>currentStreak\<close> go from 1 to 2.
\<close>

theorem second_submitAnswer_counterexample:
  "submitAnswer demo_asked ''cat'' = Inr (fst (projr (submitAnswer demo_asked ''cat'')), demo_answered) \<and>
   \<not> isl (submitAnswer demo_answered ''cat'') \<and>
   stats demo_answered =
     \<lparr>totalWords = 4, masteredWords = 1, currentStreak = 1, totalAnswered = 1, correctAnswers = 1\<rparr> \<and>
   stats (snd (projr (submitAnswer demo_answered ''cat''))) =
     \<lparr>totalWords = 4, masteredWords = 1, currentStreak = 2, totalAnswered = 2, correctAnswers = 2\<rparr>"
proof -
  have c: "currentWord demo_answered = Some 0" by code_simp
  have 1: "\<not> isl (submitAnswer demo_answered ''cat'')"
    by (simp add: submitAnswer_def c Let_def)
  have 2: "stats demo_answered =
     \<lparr>totalWords = 4, masteredWords = 1, currentStreak = 1, totalAnswered = 1, correctAnswers = 1\<rparr>"
    by code_simp
  have 3: "stats (snd (projr (submitAnswer demo_answered ''cat''))) =
     \<lparr>totalWords = 4, masteredWords = 1, currentStreak = 2, totalAnswered = 2, correctAnswers = 2\<rparr>"
    by code_simp
  show ?thesis using demo_submit_eq 1 2 3 by blast
qed

subsection \<open>isComplete\<close>

lemma initialize_totalWords:
  assumes "initialize st0 v = Inr st"
  shows "totalWords (stats st) = int (length (vocabulary st)) \<and> vocabulary st \<noteq> [] \<and>
         masteredWords (stats st) = masteredLength st"
  using assms
  by (auto simp: initialize_def Let_def updateStats_def masteredLength_def split: vocab_arg.splits if_splits)

text \<open>
  Claim C7, as the code has it. \<open>isComplete\<close> is true exactly when \<open>masteredWords\<close>
  equals \<open>totalWords\<close>; it does not ask for \<open>totalWords > 0\<close>, so an engine that was
  never initialized is complete. Right after a successful \<open>initialize\<close> the list is
  not empty, and there the test agrees with the claim's. The query reads the \<open>stats\<close>
  and writes nothing: it is a function of the engine.
\<close>

theorem isComplete_iff:
  "(isComplete st \<longleftrightarrow> masteredWords (stats st) = totalWords (stats st)) \<and>
   isComplete (QuizEngine h n) \<and>
   (initialize st0 v = Inr st \<longrightarrow>
      (isComplete st \<longleftrightarrow>
         masteredWords (stats st) = totalWords (stats st) \<and> totalWords (stats st) > 0))"
proof -
  have "initialize st0 v = Inr st \<longrightarrow> totalWords (stats st) > 0"
    using initialize_totalWords[of st0 v st] by auto
  then show ?thesis by (auto simp: isComplete_def QuizEngine_def)
qed

theorem isComplete_iff_witness:
  "initialize (QuizEngine empty_store 0) (ArrayOf demo_vocab) = Inr demo_session \<and>
   (isComplete demo_session \<longleftrightarrow>
      masteredWords (stats demo_session) = totalWords (stats demo_session) \<and>
      totalWords (stats demo_session) > 0)"
  using isComplete_iff[of demo_session empty_store 0 "QuizEngine empty_store 0" "ArrayOf demo_vocab"]
    demo_session_init
  by blast

text \<open>
  Claim C7 as stated fails on a new engine: \<open>isComplete\<close> is true there, and
  \<open>totalWords\<close> is 0.
\<close>

theorem isComplete_empty_counterexample:
  "isComplete (QuizEngine empty_store 0) \<and>
   \<not> (masteredWords (stats (QuizEngine empty_store 0)) = totalWords (stats (QuizEngine empty_store 0)) \<and>
      totalWords (stats (QuizEngine empty_store 0)) > 0)"
  by (simp add: isComplete_def QuizEngine_def)

subsection \<open>resetProgress\<close>

lemma fold_reset:
  "fold (\<lambda>a h. h(a := (h a)\<lparr>mastered := False\<rparr>)) xs h =
     (\<lambda>a. if a \<in> set xs then (h a)\<lparr>mastered := False\<rparr> else h a)"
  by (induction xs arbitrary: h) (auto simp: fun_eq_iff)

lemma heap_resetProgress:
  "heap (resetProgress st) =
     (\<lambda>a. if a \<in> set (vocabulary st) then (heap st a)\<lparr>mastered := False\<rparr> else heap st a)"
  by (simp add: resetProgress_def updateStats_def Let_def fold_reset)

lemma vocabulary_resetProgress: "vocabulary (resetProgress st) = vocabulary st"
  by (simp add: resetProgress_def updateStats_def Let_def)

lemma stats_resetProgress:
  "stats (resetProgress st) =
     \<lparr>totalWords = totalWords (stats st), masteredWords = 0, currentStreak = 0,
      totalAnswered = 0, correctAnswers = 0\<rparr>"
proof -
  have "filter (\<lambda>a. mastered (heap (resetProgress st) a)) (vocabulary st) = []"
    by (simp add: heap_resetProgress filter_empty_conv)
  then have "masteredLength (resetProgress st) = 0"
    by (simp add: masteredLength_def vocabulary_resetProgress)
  moreover have "stats (resetProgress st) =
      (stats st)\<lparr>masteredWords := masteredLength (resetProgress st), currentStreak := 0,
                 totalAnswered := 0, correctAnswers := 0\<rparr>"
    by (simp add: resetProgress_def updateStats_def Let_def masteredLength_def)
  ultimately show ?thesis by simp
qed

text \<open>
  Claim C10, as the code has it. \<open>resetProgress\<close> writes the \<open>mastered\<close> flags, the
  counters and the set of answered words, which it empties. It leaves the vocabulary
  array as it is (its length and its order), and the \<open>french\<close> and \<open>english\<close> fields
  of every object; every item of the vocabulary has \<open>mastered = false\<close> afterwards,
  objects outside the vocabulary are untouched; \<open>masteredWords\<close>, \<open>currentStreak\<close>,
  \<open>totalAnswered\<close> and \<open>correctAnswers\<close> are 0 and \<open>totalWords\<close> is unchanged. The
  current question is kept.
\<close>

theorem resetProgress_frame:
  "vocabulary (resetProgress st) = vocabulary st \<and>
   (\<forall>a. french (heap (resetProgress st) a) = french (heap st a) \<and>
        english (heap (resetProgress st) a) = english (heap st a)) \<and>
   (\<forall>a\<in>set (vocabulary st). \<not> mastered (heap (resetProgress st) a)) \<and>
   (\<forall>a. a \<notin> set (vocabulary st) \<longrightarrow> heap (resetProgress st) a = heap st a) \<and>
   stats (resetProgress st) =
     \<lparr>totalWords = totalWords (stats st), masteredWords = 0, currentStreak = 0,
      totalAnswered = 0, correctAnswers = 0\<rparr> \<and>
   answeredWords (resetProgress st) = [] \<and>
   currentWord (resetProgress st) = currentWord st \<and>
   currentOptions (resetProgress st) = currentOptions st \<and>
   correctAnswer (resetProgress st) = correctAnswer st \<and>
   fresh (resetProgress st) = fresh st"
proof -
  have "answeredWords (resetProgress st) = [] \<and>
   currentWord (resetProgress st) = currentWord st \<and>
   currentOptions (resetProgress st) = currentOptions st \<and>
   correctAnswer (resetProgress st) = correctAnswer st \<and>
   fresh (resetProgress st) = fresh st"
    by (simp add: resetProgress_def updateStats_def Let_def)
  then show ?thesis
    by (simp add: vocabulary_resetProgress stats_resetProgress heap_resetProgress)
qed

theorem resetProgress_frame_witness:
  "vocabulary demo_answered = [0, 1, 2, 3] \<and> mastered (heap demo_answered 0) \<and>
   vocabulary (resetProgress demo_answered) = [0, 1, 2, 3] \<and>
   \<not> mastered (heap (resetProgress demo_answered) 0) \<and>
   french (heap (resetProgress demo_answered) 0) = ''chat'' \<and>
   english (heap (resetProgress demo_answered) 0) = ''cat'' \<and>
   heap (resetProgress demo_answered) 4 = heap demo_answered 4 \<and>
   stats (resetProgress demo_answered) =
     \<lparr>totalWords = 4, masteredWords = 0, currentStreak = 0, totalAnswered = 0, correctAnswers = 0\<rparr>"
proof -
  have v: "vocabulary demo_answered = [0, 1, 2, 3]" by code_simp
  have m: "mastered (heap demo_answered 0)" by code_simp
  have f: "french (heap demo_answered 0) = ''chat''" by code_simp
  have e: "english (heap demo_answered 0) = ''cat''" by code_simp
  have t: "totalWords (stats demo_answered) = 4" by code_simp
  have i: "(0::nat) \<in> set (vocabulary demo_answered)" "(4::nat) \<notin> set (vocabulary demo_answered)"
    by (simp_all add: v)
  from resetProgress_frame[of demo_answered] v m f e t i show ?thesis
    by metis
qed

text \<open>
  Claim C10 as stated fails: flags and counters are not all that \<open>resetProgress\<close>
  writes. After \<open>chat\<close> was answered correctly the set of answered words holds
  \<open>chat\<close>; \<open>resetProgress\<close> empties it, and \<open>exportState\<close> shows the difference.
\<close>

theorem resetProgress_answeredWords_counterexample:
  "answeredWords demo_answered = [''chat''] \<and>
   answeredWords (resetProgress demo_answered) = [] \<and>
   s_answeredWords (exportState demo_answered ''2026'') = Some [''chat''] \<and>
   s_answeredWords (exportState (resetProgress demo_answered) ''2026'') = Some []"
proof -
  have w: "answeredWords demo_answered = [''chat'']" by code_simp
  have e: "answeredWords (resetProgress demo_answered) = []"
    by (simp add: resetProgress_def updateStats_def Let_def)
  show ?thesis by (simp add: w e exportState_def)
qed

subsection \<open>Invariants of a session\<close>

lemma counted_updateStats: "masteredWords (stats (updateStats st)) = masteredLength (updateStats st)"
  by (simp add: updateStats_def masteredLength_def)

lemma getNextWord_frame:
  "heap (snd (getNextWord st rnd)) = heap st \<and>
   vocabulary (snd (getNextWord st rnd)) = vocabulary st \<and>
   stats (snd (getNextWord st rnd)) = stats st \<and>
   answeredWords (snd (getNextWord st rnd)) = answeredWords st"
  by (simp add: getNextWord_def Let_def)

lemma masteredLength_getNextWord: "masteredLength (snd (getNextWord st rnd)) = masteredLength st"
  by (simp add: masteredLength_def getNextWord_frame)

lemma counted_submitAnswer:
  "submitAnswer st a = Inr p \<Longrightarrow> masteredWords (stats (snd p)) = masteredLength (snd p)"
  by (auto simp: submitAnswer_def Let_def counted_updateStats split: option.splits)

lemma counted_markWordAsMastered:
  "masteredWords (stats st) = masteredLength st \<Longrightarrow>
   masteredWords (stats (snd (markWordAsMastered st f))) = masteredLength (snd (markWordAsMastered st f))"
  by (auto simp: markWordAsMastered_def counted_updateStats split: option.splits)

lemma counted_resetProgress: "masteredWords (stats (resetProgress st)) = masteredLength (resetProgress st)"
  by (simp add: resetProgress_def Let_def counted_updateStats)

lemma counted_importState: "masteredWords (stats (importState st state)) = masteredLength (importState st state)"
  by (simp add: importState_def Let_def counted_updateStats)

lemma counted_step:
  assumes "masteredWords (stats st) = masteredLength st"
  shows "masteredWords (stats (step st c)) = masteredLength (step st c)"
proof (cases c)
  case (Initialize v)
  then show ?thesis using assms initialize_totalWords[of st v]
    by (auto split: sum.splits)
next
  case (GetNextWord rnd)
  then show ?thesis using assms by (simp add: masteredLength_getNextWord getNextWord_frame)
next
  case (SubmitAnswer a)
  then show ?thesis using assms counted_submitAnswer[of st a]
    by (auto split: sum.splits)
next
  case ResetProgress
  then show ?thesis by (simp add: counted_resetProgress)
next
  case (MarkWordAsMastered f)
  then show ?thesis using assms by (simp add: counted_markWordAsMastered)
next
  case (ImportState state)
  then show ?thesis by (simp add: counted_importState)
qed

lemma counted_run:
  "masteredWords (stats st) = masteredLength st \<Longrightarrow>
   masteredWords (stats (run st cs)) = masteredLength (run st cs)"
  by (induction cs arbitrary: st) (simp_all add: counted_step)

lemma counted_QuizEngine: "masteredWords (stats (QuizEngine h n)) = masteredLength (QuizEngine h n)"
  by (simp add: QuizEngine_def masteredLength_def)

lemma distinct_set_add: "distinct xs \<Longrightarrow> distinct (set_add x xs)"
  by (simp add: set_add_def)

lemma distinct_fold_set_add: "distinct acc \<Longrightarrow> distinct (fold set_add ws acc)"
  by (induction ws arbitrary: acc) (simp_all add: distinct_set_add)

lemma fold_set_add_distinct: "distinct (acc @ ws) \<Longrightarrow> fold set_add ws acc = acc @ ws"
  by (induction ws arbitrary: acc) (auto simp: set_add_def)

lemma distinct_answeredWords_step:
  assumes "distinct (answeredWords st)"
  shows "distinct (answeredWords (step st c))"
proof (cases c)
  case (Initialize v)
  then show ?thesis using assms
    by (auto simp: initialize_def Let_def updateStats_def split: vocab_arg.splits)
next
  case (GetNextWord rnd)
  then show ?thesis using assms by (simp add: getNextWord_frame)
next
  case (SubmitAnswer a)
  then show ?thesis using assms
    by (auto simp: submitAnswer_def Let_def updateStats_def distinct_set_add split: option.splits)
next
  case ResetProgress
  then show ?thesis by (simp add: resetProgress_def Let_def updateStats_def)
next
  case (MarkWordAsMastered f)
  then show ?thesis using assms
    by (auto simp: markWordAsMastered_def updateStats_def split: option.splits)
next
  case (ImportState state)
  then show ?thesis using assms
    by (auto simp: importState_def Let_def updateStats_def distinct_fold_set_add split: option.splits)
qed

lemma distinct_answeredWords_run:
  "distinct (answeredWords st) \<Longrightarrow> distinct (answeredWords (run st cs))"
  by (induction cs arbitrary: st) (simp_all add: distinct_answeredWords_step)

subsection \<open>exportState and importState\<close>

text \<open>
  Claim C8. Let \<open>st\<close> be any state that a new engine reaches by a sequence of calls,
  and let the object \<open>exportState\<close> returns for it be imported, either into another
  engine \<open>st2\<close> that lives in the same store (a new one, say) or into \<open>st\<close> itself.
  The importing session is then equivalent to \<open>st\<close>: \<open>getProgress\<close> returns the
  record it returns for \<open>st\<close> (\<open>masteredCount\<close>, \<open>totalCount\<close>, \<open>percentage\<close>,
  \<open>accuracy\<close>, \<open>currentStreak\<close>), the vocabulary and its items, the stats and the
  answered words are those of \<open>st\<close>, and \<open>masteredWords\<close>, recounted from the restored
  items, is the exported \<open>masteredWords\<close>. Importing into \<open>st\<close> itself gives \<open>st\<close>.
\<close>

theorem exportState_importState_roundtrip:
  assumes "st = run (QuizEngine h n) cs" and "heap st2 = heap st"
  shows "getProgress pct (importState st2 (exportState st now)) = getProgress pct st \<and>
         masteredWords (stats (importState st2 (exportState st now))) =
           masteredWords (the (s_stats (exportState st now))) \<and>
         masteredWords (stats (importState st2 (exportState st now))) =
           int (length (filter (\<lambda>a. mastered (heap (importState st2 (exportState st now)) a))
                          (vocabulary (importState st2 (exportState st now))))) \<and>
         vocabulary (importState st2 (exportState st now)) = vocabulary st \<and>
         heap (importState st2 (exportState st now)) = heap st \<and>
         stats (importState st2 (exportState st now)) = stats st \<and>
         answeredWords (importState st2 (exportState st now)) = answeredWords st \<and>
         importState st (exportState st now) = st"
proof -
  have c: "masteredWords (stats st) = masteredLength st"
    unfolding assms(1) by (rule counted_run[OF counted_QuizEngine])
  have "distinct (answeredWords (QuizEngine h n))" by (simp add: QuizEngine_def)
  then have d: "distinct (answeredWords st)"
    unfolding assms(1) by (rule distinct_answeredWords_run)
  have a: "fold set_add (answeredWords st) [] = answeredWords st"
    using fold_set_add_distinct[of "[]" "answeredWords st"] d by simp
  have l: "masteredLength (e\<lparr>vocabulary := vocabulary st, stats := stats st,
            answeredWords := answeredWords st\<rparr>) = masteredLength st" if "heap e = heap st" for e
    using that by (simp add: masteredLength_def)
  have i: "importState e (exportState st now) =
      e\<lparr>vocabulary := vocabulary st, stats := stats st, answeredWords := answeredWords st\<rparr>"
    if "heap e = heap st" for e
    using c l[OF that]
    by (simp add: importState_def exportState_def getVocabulary_def Let_def a updateStats_def)
  have p: "the (s_stats (exportState st now)) = stats st"
    by (simp add: exportState_def)
  have g: "getProgress pct (importState st2 (exportState st now)) = getProgress pct st"
    by (simp add: i[OF assms(2)] getProgress_def)
  have m: "masteredWords (stats st) =
      int (length (filter (\<lambda>a. mastered (heap st a)) (vocabulary st)))"
    using c by (simp add: masteredLength_def)
  have s: "importState st (exportState st now) = st"
    by (simp add: i[of st])
  show ?thesis
    using g m s by (simp add: i[OF assms(2)] p assms(2))
qed

theorem exportState_importState_roundtrip_witness:
  "demo_answered = run (QuizEngine empty_store 0)
     [Initialize (ArrayOf demo_vocab), GetNextWord rnd_zero, SubmitAnswer ''cat''] \<and>
   heap demo_other = heap demo_answered \<and>
   stats demo_other =
     \<lparr>totalWords = 0, masteredWords = 0, currentStreak = 0, totalAnswered = 0, correctAnswers = 0\<rparr> \<and>
   (\<forall>pct. getProgress pct (importState demo_other (exportState demo_answered ''2026'')) =
      getProgress pct demo_answered) \<and>
   masteredWords (stats (importState demo_other (exportState demo_answered ''2026''))) = 1 \<and>
   vocabulary (importState demo_other (exportState demo_answered ''2026'')) = [0, 1, 2, 3] \<and>
   stats (importState demo_other (exportState demo_answered ''2026'')) =
     \<lparr>totalWords = 4, masteredWords = 1, currentStreak = 1, totalAnswered = 1, correctAnswers = 1\<rparr> \<and>
   answeredWords (importState demo_other (exportState demo_answered ''2026'')) = [''chat''] \<and>
   importState demo_answered (exportState demo_answered ''2026'') = demo_answered"
proof -
  have r: "demo_answered = run (QuizEngine empty_store 0)
     [Initialize (ArrayOf demo_vocab), GetNextWord rnd_zero, SubmitAnswer ''cat'']"
    by (rule demo_run[symmetric])
  have h: "heap demo_other = heap demo_answered"
    by (simp add: demo_other_def QuizEngine_def)
  have o: "stats demo_other =
     \<lparr>totalWords = 0, masteredWords = 0, currentStreak = 0, totalAnswered = 0, correctAnswers = 0\<rparr>"
    by (simp add: demo_other_def QuizEngine_def)
  have m: "masteredWords (the (s_stats (exportState demo_answered ''2026''))) = 1"
    by code_simp
  have v: "vocabulary demo_answered = [0, 1, 2, 3]" by code_simp
  have s: "stats demo_answered =
     \<lparr>totalWords = 4, masteredWords = 1, currentStreak = 1, totalAnswered = 1, correctAnswers = 1\<rparr>"
    by code_simp
  have w: "answeredWords demo_answered = [''chat'']" by code_simp
  have "(\<forall>pct. getProgress pct (importState demo_other (exportState demo_answered ''2026'')) =
      getProgress pct demo_answered) \<and>
   masteredWords (stats (importState demo_other (exportState demo_answered ''2026''))) = 1 \<and>
   vocabulary (importState demo_other (exportState demo_answered ''2026'')) = [0, 1, 2, 3] \<and>
   stats (importState demo_other (exportState demo_answered ''2026'')) =
     \<lparr>totalWords = 4, masteredWords = 1, currentStreak = 1, totalAnswered = 1, correctAnswers = 1\<rparr> \<and>
   answeredWords (importState demo_other (exportState demo_answered ''2026'')) = [''chat''] \<and>
   importState demo_answered (exportState demo_answered ''2026'') = demo_answered"
    using exportState_importState_roundtrip[OF r h, of _ "''2026''"] m v s w
    by metis
  with r h o show ?thesis by blast
qed

subsection \<open>Asking and answering\<close>

lemma length_filter_all: "(length (filter P xs) = length xs) = (\<forall>x\<in>set xs. P x)"
proof (induction xs)
  case Nil
  then show ?case by simp
next
  case (Cons x xs)
  have "length (filter P xs) \<noteq> Suc (length xs)"
    using length_filter_le[of P xs] by linarith
  then show ?case using Cons by auto
qed

lemma filter_mastered_mono:
  "length (filter (\<lambda>a. mastered (h a)) xs)
     \<le> length (filter (\<lambda>a. mastered ((h(w := (h w)\<lparr>mastered := True\<rparr>)) a)) xs)"
  by (induction xs) auto

lemma submitAnswer_frame:
  assumes "submitAnswer st a = Inr p"
  shows "vocabulary (snd p) = vocabulary st \<and>
         totalWords (stats (snd p)) = totalWords (stats st) \<and>
         masteredLength st \<le> masteredLength (snd p)"
proof -
  from assms obtain w where w: "currentWord st = Some w"
    by (auto simp: submitAnswer_def split: option.splits)
  show ?thesis
  proof (cases "a = correctAnswer st")
    case True
    with assms w show ?thesis
      using filter_mastered_mono[of "heap st" "vocabulary st" w]
      by (auto simp: submitAnswer_def Let_def updateStats_def masteredLength_def)
  next
    case False
    with assms w show ?thesis
      by (auto simp: submitAnswer_def Let_def updateStats_def masteredLength_def)
  qed
qed

lemma answering_step:
  assumes "masteredWords (stats st) = masteredLength st"
    and "totalWords (stats st) = int (length (vocabulary st))"
    and "answering c"
  shows "masteredWords (stats (step st c)) = masteredLength (step st c) \<and>
         totalWords (stats (step st c)) = int (length (vocabulary (step st c))) \<and>
         masteredWords (stats st) \<le> masteredWords (stats (step st c))"
proof (cases c)
  case (GetNextWord rnd)
  then show ?thesis using assms by (simp add: masteredLength_getNextWord getNextWord_frame)
next
  case (SubmitAnswer a)
  show ?thesis
  proof (cases "submitAnswer st a")
    case (Inl e)
    with SubmitAnswer assms show ?thesis by simp
  next
    case (Inr p)
    from submitAnswer_frame[OF Inr] counted_submitAnswer[OF Inr] SubmitAnswer Inr assms
    show ?thesis by simp
  qed
qed (use assms in simp_all)

lemma answering_trace:
  assumes "masteredWords (stats st) = masteredLength st"
    and "totalWords (stats st) = int (length (vocabulary st))"
    and "\<forall>c\<in>set cs. answering c"
  shows "sorted (map (\<lambda>s. masteredWords (stats s)) (trace st cs)) \<and>
         (\<forall>s\<in>set (trace st cs).
            masteredWords (stats s) = masteredLength s \<and>
            totalWords (stats s) = int (length (vocabulary s)) \<and>
            masteredWords (stats st) \<le> masteredWords (stats s))"
  using assms
proof (induction cs arbitrary: st)
  case Nil
  then show ?case by simp
next
  case (Cons c cs)
  from Cons.prems have a: "answering c" and as: "\<forall>c\<in>set cs. answering c" by simp_all
  note s = answering_step[OF Cons.prems(1) Cons.prems(2) a]
  from s have s1: "masteredWords (stats (step st c)) = masteredLength (step st c)"
    and s2: "totalWords (stats (step st c)) = int (length (vocabulary (step st c)))"
    and s3: "masteredWords (stats st) \<le> masteredWords (stats (step st c))"
    by simp_all
  note ih = Cons.IH[OF s1 s2 as]
  from ih s3 have le: "\<forall>s\<in>set (trace (step st c) cs). masteredWords (stats st) \<le> masteredWords (stats s)"
    by fastforce
  from ih le Cons.prems(1) Cons.prems(2) show ?case by simp
qed

lemma isComplete_all_mastered:
  assumes "masteredWords (stats s) = masteredLength s"
    and "totalWords (stats s) = int (length (vocabulary s))"
  shows "isComplete s \<longleftrightarrow> (\<forall>a\<in>set (vocabulary s). mastered (heap s a))"
  using assms length_filter_all[of "\<lambda>a. mastered (heap s a)" "vocabulary s"]
  by (simp add: isComplete_def masteredLength_def)

text \<open>
  Claim C9. Take a session right after a successful \<open>initialize\<close> and any finite
  sequence of \<open>getNextWord\<close> and \<open>submitAnswer\<close> calls. Along the engine states
  before the first and after each call, \<open>masteredWords\<close> never decreases, and in each
  of these states \<open>isComplete\<close> is true exactly when the \<open>mastered\<close> flag of every
  item of the vocabulary is true.
\<close>

theorem masteredWords_monotone:
  assumes "initialize st0 v = Inr st" and "\<forall>c\<in>set cs. answering c"
  shows "sorted (map (\<lambda>s. masteredWords (stats s)) (trace st cs)) \<and>
         (\<forall>s\<in>set (trace st cs).
            isComplete s \<longleftrightarrow> (\<forall>a\<in>set (vocabulary s). mastered (heap s a)))"
proof -
  from initialize_totalWords[OF assms(1)] have
    i1: "masteredWords (stats st) = masteredLength st" and
    i2: "totalWords (stats st) = int (length (vocabulary st))" by simp_all
  note t = answering_trace[OF i1 i2 assms(2)]
  from t have "\<forall>s\<in>set (trace st cs).
      isComplete s \<longleftrightarrow> (\<forall>a\<in>set (vocabulary s). mastered (heap s a))"
    using isComplete_all_mastered by blast
  with t show ?thesis by blast
qed

theorem masteredWords_monotone_witness:
  "initialize (QuizEngine empty_store 0) (ArrayOf two_vocab) = Inr two_session \<and>
   list_all answering two_calls \<and>
   map (\<lambda>s. masteredWords (stats s)) (trace two_session two_calls) = [0, 0, 1, 1, 2] \<and>
   sorted (map (\<lambda>s. masteredWords (stats s)) (trace two_session two_calls)) \<and>
   list_all (\<lambda>s. isComplete s \<longleftrightarrow> list_all (\<lambda>a. mastered (heap s a)) (vocabulary s))
     (trace two_session two_calls)"
proof -
  have a: "\<forall>c\<in>set two_calls. answering c"
    by (simp add: two_calls_def)
  have m: "map (\<lambda>s. masteredWords (stats s)) (trace two_session two_calls) = [0, 0, 1, 1, 2]"
    by code_simp
  from masteredWords_monotone[OF two_session_init a] have
    "sorted (map (\<lambda>s. masteredWords (stats s)) (trace two_session two_calls)) \<and>
     list_all (\<lambda>s. isComplete s \<longleftrightarrow> list_all (\<lambda>a. mastered (heap s a)) (vocabulary s))
       (trace two_session two_calls)"
    by (simp add: list_all_iff)
  moreover have "list_all answering two_calls"
    using a by (simp add: list_all_iff)
  ultimately show ?thesis using two_session_init m by blast
qed

subsection \<open>The bounds of masteredWords\<close>

text \<open>
  Every call but \<open>importState\<close> keeps \<open>totalWords\<close> equal to the length of the
  vocabulary, and \<open>masteredWords\<close> is a count of items of the vocabulary; so a
  session that never imports has \<open>0 \<le> masteredWords \<le> totalWords\<close>.
\<close>

lemma bounds_without_importState_step:
  assumes "masteredWords (stats st) = masteredLength st"
    and "totalWords (stats st) = int (length (vocabulary st))"
    and "\<forall>state. c \<noteq> ImportState state"
  shows "totalWords (stats (step st c)) = int (length (vocabulary (step st c)))"
proof (cases c)
  case (Initialize v)
  then show ?thesis using assms initialize_totalWords[of st v] by (auto split: sum.splits)
next
  case (GetNextWord rnd)
  then show ?thesis using assms by (simp add: getNextWord_frame)
next
  case (SubmitAnswer a)
  then show ?thesis using assms submitAnswer_frame[of st a] by (auto split: sum.splits)
next
  case ResetProgress
  then show ?thesis using assms by (simp add: vocabulary_resetProgress stats_resetProgress)
next
  case (MarkWordAsMastered f)
  then show ?thesis using assms
    by (auto simp: markWordAsMastered_def updateStats_def split: option.splits)
next
  case (ImportState state)
  then show ?thesis using assms by simp
qed

lemma bounds_without_importState:
  assumes "\<forall>c\<in>set cs. \<forall>state. c \<noteq> ImportState state"
  shows "0 \<le> masteredWords (stats (run (QuizEngine h n) cs)) \<and>
         masteredWords (stats (run (QuizEngine h n) cs)) \<le> totalWords (stats (run (QuizEngine h n) cs))"
proof -
  have "masteredWords (stats st) = masteredLength st \<Longrightarrow>
        totalWords (stats st) = int (length (vocabulary st)) \<Longrightarrow>
        \<forall>c\<in>set cs. \<forall>state. c \<noteq> ImportState state \<Longrightarrow>
        totalWords (stats (run st cs)) = int (length (vocabulary (run st cs)))" for st
  proof (induction cs arbitrary: st)
    case Nil
    then show ?case by simp
  next
    case (Cons c cs)
    from Cons.prems have c: "\<forall>state. c \<noteq> ImportState state" by simp
    show ?case using Cons.prems counted_step bounds_without_importState_step[OF Cons.prems(1,2) c]
      by (simp add: Cons.IH)
  qed
  from this[OF counted_QuizEngine _ assms] have
    t: "totalWords (stats (run (QuizEngine h n) cs)) = int (length (vocabulary (run (QuizEngine h n) cs)))"
    by (simp add: QuizEngine_def)
  have m: "masteredWords (stats (run (QuizEngine h n) cs)) = masteredLength (run (QuizEngine h n) cs)"
    by (rule counted_run[OF counted_QuizEngine])
  show ?thesis unfolding t m by (simp add: masteredLength_def)
qed

text \<open>
  Claim C6 against the code. \<open>importState\<close> replaces the vocabulary and recounts
  \<open>masteredWords\<close>, but it takes \<open>totalWords\<close> from the imported stats, or keeps the
  old one when the object has no stats; \<open>initialize\<close> sets it to the length of the
  list. On a new engine, importing an object with a vocabulary of one mastered word and
  no stats gives \<open>masteredWords = 1\<close> above \<open>totalWords = 0\<close>.
\<close>

theorem importState_keeps_stale_totalWords:
  "stats (importState (QuizEngine mastered_store 1) vocabulary_only) =
     \<lparr>totalWords = 0, masteredWords = 1, currentStreak = 0, totalAnswered = 0, correctAnswers = 0\<rparr>"
  by code_simp

end
